theory Spec2Isabelle
  imports Complex_Main "HOL-Library.AList" "HOL-Library.Word"
begin

section \<open>Data model of \<open>src/main.py\<close>\<close>

text \<open>
  A Python float is modelled by the rational number it denotes, and the results of
  float operations are rounded as IEEE 754 binary64 rounds them (section ``Binary64
  arithmetic'').  The prize amounts of the table are Python ints and are modelled as
  \<open>int\<close>.  Python strings are modelled as byte strings in UTF-8, so an accented
  letter of a message is written as its two bytes.  Every value the source obtains from
  its environment (\<open>random.random()\<close>, \<open>random.choice\<close>, \<open>uuid.uuid4()\<close>,
  \<open>datetime.now().isoformat()\<close>) is an explicit argument of the model.
\<close>

section \<open>Binary64 arithmetic\<close>

text \<open>Rounding to the nearest integer, a tie going to the even one.\<close>

definition round_half_even :: "rat \<Rightarrow> int" where
  "round_half_even x =
    (let f = \<lfloor>x\<rfloor>; d = x - of_int f in
     if d < 1 / 2 then f else if 1 / 2 < d then f + 1 else if even f then f else f + 1)"

text \<open>The smallest positive normal binary64 number.\<close>

definition min_normal :: rat where
  "min_normal = 1 / 2 ^ 1022"

text \<open>
  The power of two at the bottom of the binade of a positive number: \<open>binade_hi\<close>
  doubles \<open>p\<close> while \<open>2 * p\<close> is still at most \<open>x\<close>, \<open>binade_lo\<close> halves \<open>p\<close> while
  \<open>x\<close> is below it, and stops at \<open>min_normal\<close>, below which all numbers share one
  spacing.
\<close>

function binade_hi :: "rat \<Rightarrow> rat \<Rightarrow> rat" where
  "binade_hi x p = (if 0 < p \<and> 2 * p \<le> x then binade_hi x (2 * p) else p)"
  by pat_completeness auto

function binade_lo :: "rat \<Rightarrow> rat \<Rightarrow> rat" where
  "binade_lo x p = (if 0 < x \<and> x < p \<and> min_normal < p then binade_lo x (p / 2) else p)"
  by pat_completeness auto

termination binade_hi
proof (relation "measure (\<lambda>(x, p). nat \<lfloor>x / p\<rfloor>)")
  show "wf (measure (\<lambda>(x, p). nat \<lfloor>x / p\<rfloor>))" by simp
next
  fix x p :: rat
  assume "0 < p \<and> 2 * p \<le> x"
  then have two: "2 \<le> x / p" by (simp add: le_divide_eq)
  define y where "y = x / p"
  have one: "(1::rat) \<le> of_int \<lfloor>y\<rfloor>"
    using two unfolding y_def
    by (metis le_floor_iff of_int_1 of_int_le_iff one_le_numeral order_trans)
  have "of_int \<lfloor>y / 2\<rfloor> \<le> y / 2" by (rule of_int_floor_le)
  moreover have "y < of_int \<lfloor>y\<rfloor> + 1"
    by (rule floor_correct [THEN conjunct2, simplified])
  ultimately have "(of_int \<lfloor>y / 2\<rfloor> :: rat) < of_int \<lfloor>y\<rfloor>"
    using one by linarith
  then have "\<lfloor>y / 2\<rfloor> < \<lfloor>y\<rfloor>" by (simp only: of_int_less_iff)
  then have "\<lfloor>x / p / 2\<rfloor> < \<lfloor>x / p\<rfloor>" by (simp only: y_def)
  moreover have "x / (2 * p) = x / p / 2" by simp
  ultimately have less: "\<lfloor>x / (2 * p)\<rfloor> < \<lfloor>x / p\<rfloor>" by (simp only:)
  have "0 < \<lfloor>x / p\<rfloor>" using two by (simp add: less_floor_iff)
  with less have "nat \<lfloor>x / (2 * p)\<rfloor> < nat \<lfloor>x / p\<rfloor>" by linarith
  then show "((x, 2 * p), (x, p)) \<in> measure (\<lambda>(x, p). nat \<lfloor>x / p\<rfloor>)"
    by (simp only: in_measure prod.case)
qed

termination binade_lo
proof (relation "measure (\<lambda>(x, p). nat \<lfloor>p / x\<rfloor>)")
  show "wf (measure (\<lambda>(x, p). nat \<lfloor>p / x\<rfloor>))" by simp
next
  fix x p :: rat
  assume "0 < x \<and> x < p \<and> min_normal < p"
  then have ge: "1 \<le> p / x" by (simp add: le_divide_eq)
  define y where "y = p / x"
  have one: "(1::rat) \<le> of_int \<lfloor>y\<rfloor>"
    using ge unfolding y_def by (metis le_floor_iff of_int_1 of_int_le_iff)
  have "of_int \<lfloor>y / 2\<rfloor> \<le> y / 2" by (rule of_int_floor_le)
  moreover have "y < of_int \<lfloor>y\<rfloor> + 1"
    by (rule floor_correct [THEN conjunct2, simplified])
  ultimately have "(of_int \<lfloor>y / 2\<rfloor> :: rat) < of_int \<lfloor>y\<rfloor>"
    using one by linarith
  then have "\<lfloor>y / 2\<rfloor> < \<lfloor>y\<rfloor>" by (simp only: of_int_less_iff)
  then have "\<lfloor>p / x / 2\<rfloor> < \<lfloor>p / x\<rfloor>" by (simp only: y_def)
  moreover have "p / 2 / x = p / x / 2" by simp
  ultimately have less: "\<lfloor>p / 2 / x\<rfloor> < \<lfloor>p / x\<rfloor>" by (simp only:)
  have "0 < \<lfloor>p / x\<rfloor>" using ge by (simp add: less_floor_iff)
  with less have "nat \<lfloor>p / 2 / x\<rfloor> < nat \<lfloor>p / x\<rfloor>" by linarith
  then show "((x, p / 2), (x, p)) \<in> measure (\<lambda>(x, p). nat \<lfloor>p / x\<rfloor>)"
    by (simp only: in_measure prod.case)
qed

declare binade_hi.simps [simp del] binade_lo.simps [simp del]

definition binade :: "rat \<Rightarrow> rat" where
  "binade x = (if 1 \<le> x then binade_hi x 1 else binade_lo x 1)"

text \<open>The spacing of the binary64 numbers around a positive number: 52 fraction bits.\<close>

definition ulp :: "rat \<Rightarrow> rat" where
  "ulp x = binade x / 2 ^ 52"

text \<open>
  The binary64 number nearest to a rational, ties to even: the value Python gives a
  decimal literal, and the rounding of every float operation.  The result is finite:
  the source adds only numbers below 2, so no operation overflows.
\<close>

definition binary64 :: "rat \<Rightarrow> rat" where
  "binary64 x =
    (if x = 0 then 0
     else if x < 0 then - (of_int (round_half_even (- x / ulp (- x))) * ulp (- x))
     else of_int (round_half_even (x / ulp x)) * ulp x)"

text \<open>Python's \<open>+\<close> on two floats.\<close>

definition fadd :: "rat \<Rightarrow> rat \<Rightarrow> rat" where
  "fadd x y = binary64 (x + y)"

text \<open>
  \<open>random.random()\<close> returns \<open>k / 2\<^sup>5\<^sup>3\<close> for an integer \<open>0 \<le> k < 2\<^sup>5\<^sup>3\<close>
  (CPython builds \<open>k\<close> from 27 and 26 bits of two generator outputs), so a draw is
  modelled by its 53-bit numerator.
\<close>

type_synonym draw = "53 word"

definition draw_value :: "draw \<Rightarrow> rat" where
  "draw_value k = of_nat (unat k) / 2 ^ 53"

text \<open>
  One element of a list in \<open>PrizeSystem.prize_pools\<close>.  The field \<open>probability\<close>
  holds the decimal literal as the source writes it; the float the literal denotes is
  \<open>binary64\<close> of it.
\<close>

record prize_entry =
  amount :: int
  probability :: rat
  message :: string

text \<open>The dict returned by \<open>PrizeSystem.generate_prize\<close>.\<close>

record prize =
  prize_amount :: int
  prize_message :: string
  is_winner :: bool
  prize_tier :: string
  timestamp :: string

text \<open>The exceptions the source can raise.\<close>

datatype exn =
  KeyError rat
  | HTTPException (status_code: nat) (detail: string)

text \<open>\<open>d[k]\<close> and \<open>d.get(k, default)\<close> on a dict kept as an association list.\<close>

definition dict_index :: "(rat \<times> 'v) list \<Rightarrow> rat \<Rightarrow> exn + 'v" where
  "dict_index d k = (case map_of d k of None \<Rightarrow> Inl (KeyError k) | Some v \<Rightarrow> Inr v)"

definition dict_get :: "('k \<times> 'v) list \<Rightarrow> 'k \<Rightarrow> 'v \<Rightarrow> 'v" where
  "dict_get d k dflt = (case map_of d k of None \<Rightarrow> dflt | Some v \<Rightarrow> v)"

section \<open>\<open>PrizeSystem\<close>\<close>

definition msg_tente :: string where
  "msg_tente = ''Tente novamente!''"

definition msg_recuperou :: string where
  "msg_recuperou = ''Recuperou o valor!''"

definition msg_triplicou :: string where
  "msg_triplicou = ''Triplicou!''"

definition msg_grande :: string where
  "msg_grande = ''Grande pr'' @ [CHR 0xC3, CHR 0xAA] @ ''mio!''"

definition msg_jackpot :: string where
  "msg_jackpot = ''JACKPOT!''"

definition prize_pools :: "(rat \<times> prize_entry list) list" where
  "prize_pools =
    [(5,
      [\<lparr>amount = 0, probability = 0.75, message = msg_tente\<rparr>,
       \<lparr>amount = 5, probability = 0.15, message = msg_recuperou\<rparr>,
       \<lparr>amount = 15, probability = 0.08, message = msg_triplicou\<rparr>,
       \<lparr>amount = 50, probability = 0.019, message = msg_grande\<rparr>,
       \<lparr>amount = 250, probability = 0.001, message = msg_jackpot\<rparr>]),
     (10,
      [\<lparr>amount = 0, probability = 0.70, message = msg_tente\<rparr>,
       \<lparr>amount = 10, probability = 0.18, message = msg_recuperou\<rparr>,
       \<lparr>amount = 30, probability = 0.10, message = msg_triplicou\<rparr>,
       \<lparr>amount = 100, probability = 0.019, message = msg_grande\<rparr>,
       \<lparr>amount = 500, probability = 0.001, message = msg_jackpot\<rparr>]),
     (25,
      [\<lparr>amount = 0, probability = 0.65, message = msg_tente\<rparr>,
       \<lparr>amount = 25, probability = 0.20, message = msg_recuperou\<rparr>,
       \<lparr>amount = 75, probability = 0.12, message = msg_triplicou\<rparr>,
       \<lparr>amount = 250, probability = 0.029, message = msg_grande\<rparr>,
       \<lparr>amount = 1000, probability = 0.001, message = msg_jackpot\<rparr>]),
     (50,
      [\<lparr>amount = 0, probability = 0.60, message = msg_tente\<rparr>,
       \<lparr>amount = 50, probability = 0.22, message = msg_recuperou\<rparr>,
       \<lparr>amount = 150, probability = 0.15, message = msg_triplicou\<rparr>,
       \<lparr>amount = 500, probability = 0.029, message = msg_grande\<rparr>,
       \<lparr>amount = 2500, probability = 0.001, message = msg_jackpot\<rparr>])]"

text \<open>\<open>PrizeSystem._get_prize_tier\<close>, on the amounts the table holds.\<close>

definition get_prize_tier :: "int \<Rightarrow> string" where
  "get_prize_tier a =
    (if a \<ge> 1000 then ''jackpot''
     else if a \<ge> 100 then ''major''
     else if a \<ge> 10 then ''minor''
     else if a > 0 then ''consolation''
     else ''none'')"

text \<open>The hard-coded dict returned after the loop of \<open>generate_prize\<close>.\<close>

definition fallback_prize :: "string \<Rightarrow> prize" where
  "fallback_prize now =
    \<lparr>prize_amount = 0, prize_message = msg_tente, is_winner = False,
     prize_tier = ''none'', timestamp = now\<rparr>"

text \<open>
  The \<open>for prize in prizes\<close> loop of \<open>generate_prize\<close> with the fallback after it:
  the third argument is \<open>cumulative_probability\<close> on entry to the iteration, and
  \<open>+=\<close> is the float addition of the float that the literal denotes.
\<close>

fun select_prize :: "prize_entry list \<Rightarrow> rat \<Rightarrow> rat \<Rightarrow> string \<Rightarrow> prize" where
  "select_prize [] random_value cumulative_probability now = fallback_prize now"
| "select_prize (p # ps) random_value cumulative_probability now =
    (let cumulative_probability = fadd cumulative_probability (binary64 (probability p)) in
     if random_value \<le> cumulative_probability then
       \<lparr>prize_amount = amount p, prize_message = message p, is_winner = amount p > 0,
        prize_tier = get_prize_tier (amount p), timestamp = now\<rparr>
     else select_prize ps random_value cumulative_probability now)"

text \<open>
  \<open>PrizeSystem.generate_prize\<close>; \<open>k\<close> is the draw that \<open>random.random()\<close> makes.
  The default \<open>self.prize_pools[5]\<close> is evaluated before \<open>get\<close> is called, so a
  missing key 5 would raise.
\<close>

definition generate_prize :: "rat \<Rightarrow> draw \<Rightarrow> string \<Rightarrow> exn + prize" where
  "generate_prize ticket_price k now =
    (case dict_index prize_pools 5 of
       Inl e \<Rightarrow> Inl e
     | Inr dflt \<Rightarrow>
         (let random_value = draw_value k in
          Inr (select_prize (dict_get prize_pools ticket_price dflt) random_value 0 now)))"

text \<open>The keys of \<open>prize_pools\<close>: the configured ticket prices.\<close>

definition configured_prices :: "rat list" where
  "configured_prices = map fst prize_pools"

text \<open>
  The cumulative probability mass of the first \<open>n\<close> entries of a list as the loop
  accumulates it: the value of \<open>cumulative_probability\<close> after \<open>n\<close> iterations.
\<close>

definition cumulative :: "prize_entry list \<Rightarrow> nat \<Rightarrow> rat" where
  "cumulative ps n = foldl fadd 0 (map (\<lambda>p. binary64 (probability p)) (take n ps))"

text \<open>The entry list configured for a price: empty when the price is not a key.\<close>

definition entries_of :: "rat \<Rightarrow> prize_entry list" where
  "entries_of ticket_price = dict_get prize_pools ticket_price []"

text \<open>The dict the loop returns when it stops at an entry.\<close>

definition prize_of_entry :: "prize_entry \<Rightarrow> string \<Rightarrow> prize" where
  "prize_of_entry p now =
    \<lparr>prize_amount = amount p, prize_message = message p, is_winner = amount p > 0,
     prize_tier = get_prize_tier (amount p), timestamp = now\<rparr>"

section \<open>\<open>MercadoPagoSimulator\<close>\<close>

text \<open>The dict \<open>mp_payment_data\<close> handed to the simulator.\<close>

record mp_payment_data =
  mp_amount :: rat
  mp_payment_method :: string
  mp_payer :: "(string \<times> string) list"
  mp_metadata :: "(string \<times> string) list"

text \<open>A value of \<open>MercadoPagoSimulator.transactions\<close>.\<close>

record transaction =
  tx_id :: string
  tx_status :: string
  tx_status_detail :: string
  tx_transaction_amount :: rat
  tx_payment_method_id :: string
  tx_date_created :: string
  tx_date_approved :: "string option"
  tx_payer :: "(string \<times> string) list"
  tx_metadata :: "(string \<times> string) list"

text \<open>The dict returned by \<open>MercadoPagoSimulator.process_payment\<close>.\<close>

record mp_result =
  mp_id :: string
  mp_status :: string
  mp_status_detail :: string
  mp_message :: string
  mp_transaction_amount :: rat

record failure_scenario =
  fs_status :: string
  fs_detail :: string
  fs_message :: string

definition failure_scenarios :: "failure_scenario list" where
  "failure_scenarios =
    [\<lparr>fs_status = ''rejected'', fs_detail = ''cc_rejected_insufficient_amount'',
      fs_message = ''Saldo insuficiente''\<rparr>,
     \<lparr>fs_status = ''rejected'', fs_detail = ''cc_rejected_bad_filled_security_code'',
      fs_message = ''C'' @ [CHR 0xC3, CHR 0xB3] @ ''digo de seguran'' @ [CHR 0xC3, CHR 0xA7]
        @ ''a inv'' @ [CHR 0xC3, CHR 0xA1] @ ''lido''\<rparr>,
     \<lparr>fs_status = ''pending'', fs_detail = ''pending_waiting_payment'',
      fs_message = ''Aguardando pagamento''\<rparr>,
     \<lparr>fs_status = ''rejected'', fs_detail = ''cc_rejected_call_for_authorize'',
      fs_message = ''Pagamento n'' @ [CHR 0xC3, CHR 0xA3] @ ''o autorizado''\<rparr>]"

text \<open>
  What one request reads from its environment, in the order the source reads it:
  the hex digits of the payment uuid, the simulator's \<open>random.random()\<close>, the index
  \<open>random.choice\<close> picks, the clock at \<open>date_created\<close> and \<open>date_approved\<close>, the clock
  at the payment record, the hex digits of the ticket uuid, the draw and the clock of
  \<open>generate_prize\<close>, and the clock at the ticket's \<open>created_at\<close>.
\<close>

record draws =
  payment_uuid :: string
  approval_draw :: draw
  scenario_draw :: nat
  now_date_created :: string
  now_date_approved :: string
  now_payment :: string
  ticket_uuid :: string
  prize_draw :: draw
  now_prize :: string
  now_ticket :: string

text \<open>\<open>random.choice\<close> on a non-empty list, by the index it draws.\<close>

definition random_choice :: "nat \<Rightarrow> 'a list \<Rightarrow> 'a" where
  "random_choice i xs = xs ! (i mod length xs)"

section \<open>The stores and the endpoints\<close>

text \<open>A value of \<open>tickets_db\<close>; the key \<open>scratched_at\<close> is absent until the scratch.\<close>

record ticket =
  ticket_id :: string
  payment_id :: string
  price :: rat
  ticket_prize :: prize
  created_at :: string
  scratched :: bool
  scratched_at :: "string option"

text \<open>A value of \<open>payments_db\<close>.\<close>

record payment =
  pay_payment_id :: string
  pay_amount :: rat
  pay_status :: string
  pay_created_at :: string

text \<open>
  The three module-level dicts, as association lists in insertion order:
  \<open>AList.update\<close> overwrites in place or appends, as a Python dict does.
\<close>

record state =
  tickets_db :: "(string \<times> ticket) list"
  payments_db :: "(string \<times> payment) list"
  transactions :: "(string \<times> transaction) list"

definition initial_state :: state where
  "initial_state = \<lparr>tickets_db = [], payments_db = [], transactions = []\<rparr>"

text \<open>\<open>MercadoPagoSimulator.process_payment\<close>.\<close>

definition mp_process_payment :: "mp_payment_data \<Rightarrow> draws \<Rightarrow> state \<Rightarrow> mp_result \<times> state" where
  "mp_process_payment payment_data d s =
    (let pid = ''mp_payment_'' @ payment_uuid d;
         success_rate = binary64 0.85;
         (status, status_detail, msg) =
           (if draw_value (approval_draw d) < success_rate then
              (''approved'', ''accredited'', ''Pagamento aprovado com sucesso'')
            else
              (let scenario = random_choice (scenario_draw d) failure_scenarios in
               (fs_status scenario, fs_detail scenario, fs_message scenario)));
         tx = \<lparr>tx_id = pid, tx_status = status, tx_status_detail = status_detail,
               tx_transaction_amount = mp_amount payment_data,
               tx_payment_method_id = mp_payment_method payment_data,
               tx_date_created = now_date_created d,
               tx_date_approved =
                 (if status = ''approved'' then Some (now_date_approved d) else None),
               tx_payer = mp_payer payment_data,
               tx_metadata = mp_metadata payment_data\<rparr>
     in (\<lparr>mp_id = pid, mp_status = status, mp_status_detail = status_detail,
          mp_message = msg, mp_transaction_amount = mp_amount payment_data\<rparr>,
         s\<lparr>transactions := AList.update pid tx (transactions s)\<rparr>))"

text \<open>The models \<open>PaymentRequest\<close> and \<open>PaymentResponse\<close>.\<close>

record payment_request =
  req_amount :: rat
  req_payment_method :: string
  req_payment_data :: "(string \<times> string) list"

record payment_response =
  success :: bool
  resp_payment_id :: string
  resp_status :: string
  resp_message :: string
  resp_ticket_id :: "string option"

definition valid_prices :: "rat list" where
  "valid_prices = [5, 10, 25, 50]"

definition detail_invalid_price :: string where
  "detail_invalid_price =
    ''Pre'' @ [CHR 0xC3, CHR 0xA7] @ ''o de bilhete inv'' @ [CHR 0xC3, CHR 0xA1] @ ''lido''"

text \<open>
  The body of the \<open>try\<close> block of the endpoint \<open>process_payment\<close>: the result is
  the exception that leaves the block, or the response, with the stores as they are at
  that moment.
\<close>

definition process_payment_try ::
  "payment_request \<Rightarrow> draws \<Rightarrow> state \<Rightarrow> (exn + payment_response) \<times> state" where
  "process_payment_try payment_request d s =
    (if req_amount payment_request \<notin> set valid_prices then
       (Inl (HTTPException 400 detail_invalid_price), s)
     else
       (let mp_payment_data =
              \<lparr>mp_amount = req_amount payment_request,
               mp_payment_method = req_payment_method payment_request,
               mp_payer = [(''email'', ''test@example.com'')],
               mp_metadata = [(''game_type'', ''scratch_lottery'')]\<rparr>;
            (res, s1) = mp_process_payment mp_payment_data d s;
            s2 = s1\<lparr>payments_db :=
                   AList.update (mp_id res)
                     \<lparr>pay_payment_id = mp_id res, pay_amount = req_amount payment_request,
                      pay_status = mp_status res, pay_created_at = now_payment d\<rparr>
                     (payments_db s1)\<rparr>
        in
          if mp_status res = ''approved'' then
            (let tid = ''ticket_'' @ ticket_uuid d in
             case generate_prize (req_amount payment_request) (prize_draw d) (now_prize d) of
               Inl e \<Rightarrow> (Inl e, s2)
             | Inr pz \<Rightarrow>
                 (Inr \<lparr>success = True, resp_payment_id = mp_id res, resp_status = ''approved'',
                       resp_message = ''Pagamento aprovado! Bilhete gerado com sucesso.'',
                       resp_ticket_id = Some tid\<rparr>,
                  s2\<lparr>tickets_db :=
                       AList.update tid
                         \<lparr>ticket_id = tid, payment_id = mp_id res,
                          price = req_amount payment_request, ticket_prize = pz,
                          created_at = now_ticket d, scratched = False,
                          scratched_at = None\<rparr>
                         (tickets_db s2)\<rparr>))
          else
            (Inr \<lparr>success = False, resp_payment_id = mp_id res, resp_status = mp_status res,
                  resp_message = mp_message res, resp_ticket_id = None\<rparr>,
             s2)))"

text \<open>
  The endpoint \<open>POST /api/process-payment\<close>: \<open>except Exception as e\<close> catches every
  exception of the block, the \<open>HTTPException\<close> of the price check included, and
  raises status 500.  \<open>str_of\<close> is Python's \<open>str(e)\<close>, which the web framework defines.
\<close>

definition process_payment ::
  "(exn \<Rightarrow> string) \<Rightarrow> payment_request \<Rightarrow> draws \<Rightarrow> state \<Rightarrow> (exn + payment_response) \<times> state" where
  "process_payment str_of payment_request d s =
    (case process_payment_try payment_request d s of
       (Inl e, s') \<Rightarrow> (Inl (HTTPException 500 (''Erro interno: '' @ str_of e)), s')
     | (Inr r, s') \<Rightarrow> (Inr r, s'))"

text \<open>The dict returned by the endpoint \<open>scratch_ticket\<close>.\<close>

record scratch_response =
  sr_ticket_id :: string
  sr_prize :: prize
  sr_message :: string

definition detail_not_found :: string where
  "detail_not_found = ''Bilhete n'' @ [CHR 0xC3, CHR 0xA3] @ ''o encontrado''"

definition detail_already_scratched :: string where
  "detail_already_scratched = ''Bilhete j'' @ [CHR 0xC3, CHR 0xA1] @ '' foi raspado''"

text \<open>
  The endpoint \<open>POST /api/scratch-ticket/{ticket_id}\<close>; \<open>now\<close> is the clock read for
  \<open>scratched_at\<close>.  A stored ticket is never the empty dict, so \<open>not ticket\<close> is the
  test for a missing key.
\<close>

definition scratch_ticket :: "string \<Rightarrow> string \<Rightarrow> state \<Rightarrow> (exn + scratch_response) \<times> state" where
  "scratch_ticket tid now s =
    (case map_of (tickets_db s) tid of
       None \<Rightarrow> (Inl (HTTPException 404 detail_not_found), s)
     | Some t \<Rightarrow>
         if scratched t then (Inl (HTTPException 400 detail_already_scratched), s)
         else
           (Inr \<lparr>sr_ticket_id = tid, sr_prize = ticket_prize t,
                 sr_message = ''Bilhete raspado com sucesso!''\<rparr>,
            s\<lparr>tickets_db :=
                AList.update tid (t\<lparr>scratched := True, scratched_at := Some now\<rparr>)
                  (tickets_db s)\<rparr>))"

text \<open>Repeated calls of \<open>scratch_ticket\<close> on one id, one clock value for each call.\<close>

fun scratch_calls :: "string \<Rightarrow> string list \<Rightarrow> state \<Rightarrow> (exn + scratch_response) list \<times> state" where
  "scratch_calls tid [] s = ([], s)"
| "scratch_calls tid (now # nows) s =
    (let (r, s') = scratch_ticket tid now s;
         (rs, s'') = scratch_calls tid nows s'
     in (r # rs, s''))"

text \<open>The dict returned by the endpoint \<open>get_statistics\<close>.\<close>

record statistics =
  total_tickets :: nat
  total_payments :: rat
  total_prizes :: int
  winners_count :: nat
  win_rate :: rat
  house_edge :: rat

definition get_statistics :: "state \<Rightarrow> statistics" where
  "get_statistics s =
    (let vals = map snd (tickets_db s);
         n = length (tickets_db s);
         payments = sum_list (map price vals);
         prizes = sum_list (map (\<lambda>t. prize_amount (ticket_prize t)) (filter scratched vals));
         winners = filter (\<lambda>t. scratched t \<and> prize_amount (ticket_prize t) > 0) vals
     in \<lparr>total_tickets = n,
         total_payments = payments,
         total_prizes = prizes,
         winners_count = length winners,
         win_rate = (if n > 0 then of_nat (length winners) / of_nat n else 0),
         house_edge =
           (if payments > 0 then (payments - of_int prizes) / payments else 0)\<rparr>)"

text \<open>The store states the endpoints can produce from the empty stores.\<close>

inductive reachable :: "state \<Rightarrow> bool" where
  reachable_init: "reachable initial_state"
| reachable_payment: "reachable s \<Longrightarrow> reachable (snd (process_payment str_of rq d s))"
| reachable_scratch: "reachable s \<Longrightarrow> reachable (snd (scratch_ticket tid now s))"

section \<open>Concrete stores and requests for the worked examples\<close>

text \<open>A prize as \<open>generate_prize\<close> returns it for price 10 (the entry of amount 30).\<close>

definition example_prize :: prize where
  "example_prize =
    \<lparr>prize_amount = 30, prize_message = msg_triplicou, is_winner = True,
     prize_tier = ''minor'', timestamp = ''2025-01-01T12:00:00''\<rparr>"

text \<open>A ticket as \<open>process_payment\<close> stores it: not scratched, no \<open>scratched_at\<close>.\<close>

definition example_ticket :: ticket where
  "example_ticket =
    \<lparr>ticket_id = ''ticket_1a2b3c4d'', payment_id = ''mp_payment_0123456789'', price = 10,
     ticket_prize = example_prize, created_at = ''2025-01-01T12:00:00'',
     scratched = False, scratched_at = None\<rparr>"

text \<open>A store holding that one ticket.\<close>

definition example_state :: state where
  "example_state =
    \<lparr>tickets_db = [(''ticket_1a2b3c4d'', example_ticket)], payments_db = [],
     transactions = []\<rparr>"

text \<open>The same store after the ticket was scratched at 08:30.\<close>

definition example_scratched_state :: state where
  "example_scratched_state =
    \<lparr>tickets_db =
       [(''ticket_1a2b3c4d'',
         example_ticket\<lparr>scratched := True, scratched_at := Some ''2025-01-02T08:30:00''\<rparr>)],
     payments_db = [], transactions = []\<rparr>"

text \<open>A request whose amount 7 is not a ticket price.\<close>

definition example_request :: payment_request where
  "example_request =
    \<lparr>req_amount = 7, req_payment_method = ''pix'', req_payment_data = []\<rparr>"

text \<open>Environment readings for one request.\<close>

definition example_draws :: draws where
  "example_draws =
    \<lparr>payment_uuid = ''0123456789'', approval_draw = 0x10000000000000, scenario_draw = 0,
     now_date_created = ''2025-01-01T12:00:00'', now_date_approved = ''2025-01-01T12:00:00'',
     now_payment = ''2025-01-01T12:00:00'', ticket_uuid = ''1a2b3c4d'',
     prize_draw = 0x1D000000000000,
     now_prize = ''2025-01-01T12:00:00'', now_ticket = ''2025-01-01T12:00:00''\<rparr>"

text \<open>A scratched ticket of price 5 that won 15.\<close>

definition example_ticket_won :: ticket where
  "example_ticket_won =
    \<lparr>ticket_id = ''ticket_5e6f7a8b'', payment_id = ''mp_payment_1111111111'', price = 5,
     ticket_prize =
       \<lparr>prize_amount = 15, prize_message = msg_triplicou, is_winner = True,
        prize_tier = ''minor'', timestamp = ''2025-01-01T13:00:00''\<rparr>,
     created_at = ''2025-01-01T13:00:00'', scratched = True,
     scratched_at = Some ''2025-01-01T13:05:00''\<rparr>"

text \<open>A scratched ticket of price 25 that won nothing.\<close>

definition example_ticket_lost :: ticket where
  "example_ticket_lost =
    \<lparr>ticket_id = ''ticket_9c0d1e2f'', payment_id = ''mp_payment_2222222222'', price = 25,
     ticket_prize =
       \<lparr>prize_amount = 0, prize_message = msg_tente, is_winner = False,
        prize_tier = ''none'', timestamp = ''2025-01-01T14:00:00''\<rparr>,
     created_at = ''2025-01-01T14:00:00'', scratched = True,
     scratched_at = Some ''2025-01-01T14:05:00''\<rparr>"

text \<open>A store with one unscratched ticket, one scratched winner and one scratched loser.\<close>

definition example_store :: state where
  "example_store =
    \<lparr>tickets_db =
       [(''ticket_1a2b3c4d'', example_ticket), (''ticket_5e6f7a8b'', example_ticket_won),
        (''ticket_9c0d1e2f'', example_ticket_lost)],
     payments_db = [], transactions = []\<rparr>"

section \<open>Properties of the prize engine\<close>

subsection \<open>The prize table\<close>

lemma dict_index_pool5:
  "dict_index prize_pools 5 = Inr (entries_of 5)"
  by (simp add: dict_index_def entries_of_def dict_get_def prize_pools_def)

lemma entries_of_5:
  "entries_of 5 =
      [\<lparr>amount = 0, probability = 0.75, message = msg_tente\<rparr>,
       \<lparr>amount = 5, probability = 0.15, message = msg_recuperou\<rparr>,
       \<lparr>amount = 15, probability = 0.08, message = msg_triplicou\<rparr>,
       \<lparr>amount = 50, probability = 0.019, message = msg_grande\<rparr>,
       \<lparr>amount = 250, probability = 0.001, message = msg_jackpot\<rparr>]"
  by (simp add: entries_of_def dict_get_def prize_pools_def)

lemma entries_of_10:
  "entries_of 10 =
      [\<lparr>amount = 0, probability = 0.70, message = msg_tente\<rparr>,
       \<lparr>amount = 10, probability = 0.18, message = msg_recuperou\<rparr>,
       \<lparr>amount = 30, probability = 0.10, message = msg_triplicou\<rparr>,
       \<lparr>amount = 100, probability = 0.019, message = msg_grande\<rparr>,
       \<lparr>amount = 500, probability = 0.001, message = msg_jackpot\<rparr>]"
  by (simp add: entries_of_def dict_get_def prize_pools_def)

lemma entries_of_25:
  "entries_of 25 =
      [\<lparr>amount = 0, probability = 0.65, message = msg_tente\<rparr>,
       \<lparr>amount = 25, probability = 0.20, message = msg_recuperou\<rparr>,
       \<lparr>amount = 75, probability = 0.12, message = msg_triplicou\<rparr>,
       \<lparr>amount = 250, probability = 0.029, message = msg_grande\<rparr>,
       \<lparr>amount = 1000, probability = 0.001, message = msg_jackpot\<rparr>]"
  by (simp add: entries_of_def dict_get_def prize_pools_def)

lemma entries_of_50:
  "entries_of 50 =
      [\<lparr>amount = 0, probability = 0.60, message = msg_tente\<rparr>,
       \<lparr>amount = 50, probability = 0.22, message = msg_recuperou\<rparr>,
       \<lparr>amount = 150, probability = 0.15, message = msg_triplicou\<rparr>,
       \<lparr>amount = 500, probability = 0.029, message = msg_grande\<rparr>,
       \<lparr>amount = 2500, probability = 0.001, message = msg_jackpot\<rparr>]"
  by (simp add: entries_of_def dict_get_def prize_pools_def)

lemmas entries_of_configured = entries_of_5 entries_of_10 entries_of_25 entries_of_50

lemma configured_prices_list: "configured_prices = [5, 10, 25, 50]"
  by (simp add: configured_prices_def prize_pools_def)

lemma dict_get_entries_of:
  "ticket_price \<in> set configured_prices \<Longrightarrow> dict_get prize_pools ticket_price dflt = entries_of ticket_price"
  by (auto simp: configured_prices_def entries_of_def dict_get_def map_of_eq_None_iff split: option.splits)

lemma dict_get_unconfigured:
  assumes "ticket_price \<notin> set configured_prices"
  shows "dict_get prize_pools ticket_price dflt = dflt"
proof -
  have "map_of prize_pools ticket_price = None"
    using assms by (simp add: map_of_eq_None_iff configured_prices_def)
  then show ?thesis by (simp add: dict_get_def)
qed

lemma generate_prize_select:
  "generate_prize ticket_price r now =
     Inr (select_prize (dict_get prize_pools ticket_price (entries_of 5)) (draw_value r) 0 now)"
  by (simp add: generate_prize_def dict_index_pool5)

subsection \<open>Evaluating binary64 arithmetic\<close>

lemma floor_rat_numeral_div:
  "\<lfloor>numeral a / numeral b :: rat\<rfloor> = numeral a div numeral b"
  by (metis floor_divide_of_int_eq of_int_numeral)

lemmas binary64_eval = binary64_def ulp_def binade_def binade_hi.simps binade_lo.simps
  round_half_even_def min_normal_def Let_def floor_rat_numeral_div

text \<open>The floats that the decimal literals of the source denote.\<close>

lemma binary64_literals:
  "binary64 0.001 = 1152921504606847 / 1152921504606846976"
  "binary64 0.019 = 5476377146882523 / 288230376151711744"
  "binary64 0.029 = 8358680908399641 / 288230376151711744"
  "binary64 0.08 = 5764607523034235 / 72057594037927936"
  "binary64 0.10 = 3602879701896397 / 36028797018963968"
  "binary64 0.12 = 1080863910568919 / 9007199254740992"
  "binary64 0.15 = 5404319552844595 / 36028797018963968"
  "binary64 0.18 = 3242591731706757 / 18014398509481984"
  "binary64 0.20 = 3602879701896397 / 18014398509481984"
  "binary64 0.22 = 7926335344172073 / 36028797018963968"
  "binary64 0.60 = 5404319552844595 / 9007199254740992"
  "binary64 0.65 = 5854679515581645 / 9007199254740992"
  "binary64 0.70 = 3152519739159347 / 4503599627370496"
  "binary64 0.75 = 3 / 4"
  "binary64 0.85 = 7656119366529843 / 9007199254740992"
  by (simp_all add: binary64_eval)

text \<open>
  Two well-known values as a check of the rounding: the float \<open>0.1\<close>, and
  \<open>0.1 + 0.2\<close>, which is the float above \<open>0.3\<close>.
\<close>

lemma binary64_one_tenth: "binary64 (1 / 10) = 3602879701896397 / 2 ^ 55"
  by (simp add: binary64_eval)

lemma fadd_tenth_fifth:
  "fadd (binary64 (1 / 10)) (binary64 (2 / 10)) = 5404319552844596 / 2 ^ 54 \<and>
   binary64 (3 / 10) = 5404319552844595 / 2 ^ 54"
  by (simp add: fadd_def binary64_eval)

text \<open>The values \<open>cumulative_probability\<close> takes in the loop, for each ticket price.\<close>

lemma cumulative_5:
  "cumulative (entries_of 5) (Suc 0) = 3 / 4"
  "cumulative (entries_of 5) 2 = 8106479329266893 / 9007199254740992"
  "cumulative (entries_of 5) 3 = 2206763817411543 / 2251799813685248"
  "cumulative (entries_of 5) 4 = 8998192055486251 / 9007199254740992"
  "cumulative (entries_of 5) 5 = 1"
  by (simp_all add: cumulative_def entries_of_5 fadd_def binary64_literals)
     (simp_all add: binary64_eval)

lemma cumulative_10:
  "cumulative (entries_of 10) (Suc 0) = 3152519739159347 / 4503599627370496"
  "cumulative (entries_of 10) 2 = 990791918021509 / 1125899906842624"
  "cumulative (entries_of 10) 3 = 8827055269646171 / 9007199254740992"
  "cumulative (entries_of 10) 4 = 4499096027743125 / 4503599627370496"
  "cumulative (entries_of 10) 5 = 9007199254740991 / 9007199254740992"
  by (simp_all add: cumulative_def entries_of_10 fadd_def binary64_literals)
     (simp_all add: binary64_eval)

lemma cumulative_25:
  "cumulative (entries_of 25) (Suc 0) = 5854679515581645 / 9007199254740992"
  "cumulative (entries_of 25) 2 = 1914029841632461 / 2251799813685248"
  "cumulative (entries_of 25) 3 = 8736983277098763 / 9007199254740992"
  "cumulative (entries_of 25) 4 = 2249548013871563 / 2251799813685248"
  "cumulative (entries_of 25) 5 = 1"
  by (simp_all add: cumulative_def entries_of_25 fadd_def binary64_literals)
     (simp_all add: binary64_eval)

lemma cumulative_50:
  "cumulative (entries_of 50) (Suc 0) = 5404319552844595 / 9007199254740992"
  "cumulative (entries_of 50) 2 = 7385903388887613 / 9007199254740992"
  "cumulative (entries_of 50) 3 = 4368491638549381 / 4503599627370496"
  "cumulative (entries_of 50) 4 = 8998192055486251 / 9007199254740992"
  "cumulative (entries_of 50) 5 = 1"
  by (simp_all add: cumulative_def entries_of_50 fadd_def binary64_literals)
     (simp_all add: binary64_eval)

lemmas cumulative_configured = cumulative_5 cumulative_10 cumulative_25 cumulative_50

text \<open>A draw is at least 0 and at most \<open>1 - 2\<^sup>-\<^sup>5\<^sup>3\<close>.\<close>

lemma draw_value_bounds:
  "0 \<le> draw_value k \<and> draw_value k \<le> 1 - 1 / 2 ^ 53 \<and> draw_value k < 1"
proof -
  have "unat k < 2 ^ 53" using unsigned_less [of k] by simp
  then have "unat k \<le> 2 ^ 53 - 1" by simp
  then have "(of_nat (unat k) :: rat) \<le> of_nat (2 ^ 53 - 1)" by (simp only: of_nat_le_iff)
  then have "(of_nat (unat k) :: rat) \<le> 2 ^ 53 - 1" by simp
  then have "draw_value k \<le> (2 ^ 53 - 1) / 2 ^ 53"
    by (simp add: draw_value_def divide_right_mono)
  moreover have "0 \<le> draw_value k"
    unfolding draw_value_def by (intro divide_nonneg_nonneg of_nat_0_le_iff) simp
  ultimately show ?thesis by simp
qed

text \<open>
  Each of these values lies within \<open>3 / 2\<^sup>5\<^sup>4\<close> of the sum of the decimal literals,
  so only a draw that close to a decimal boundary is placed differently by the loop
  than by exact arithmetic.
\<close>

lemma cumulative_deviation:
  "\<bar>cumulative (entries_of 5) (Suc 0) - sum_list (map probability (take (Suc 0) (entries_of 5)))\<bar>
     \<le> 3 / 2 ^ 54"
  "\<bar>cumulative (entries_of 5) 2 - sum_list (map probability (take 2 (entries_of 5)))\<bar>
     \<le> 3 / 2 ^ 54"
  "\<bar>cumulative (entries_of 5) 3 - sum_list (map probability (take 3 (entries_of 5)))\<bar>
     \<le> 3 / 2 ^ 54"
  "\<bar>cumulative (entries_of 5) 4 - sum_list (map probability (take 4 (entries_of 5)))\<bar>
     \<le> 3 / 2 ^ 54"
  "\<bar>cumulative (entries_of 5) 5 - sum_list (map probability (take 5 (entries_of 5)))\<bar>
     \<le> 3 / 2 ^ 54"
  "\<bar>cumulative (entries_of 10) (Suc 0) - sum_list (map probability (take (Suc 0) (entries_of 10)))\<bar>
     \<le> 3 / 2 ^ 54"
  "\<bar>cumulative (entries_of 10) 2 - sum_list (map probability (take 2 (entries_of 10)))\<bar>
     \<le> 3 / 2 ^ 54"
  "\<bar>cumulative (entries_of 10) 3 - sum_list (map probability (take 3 (entries_of 10)))\<bar>
     \<le> 3 / 2 ^ 54"
  "\<bar>cumulative (entries_of 10) 4 - sum_list (map probability (take 4 (entries_of 10)))\<bar>
     \<le> 3 / 2 ^ 54"
  "\<bar>cumulative (entries_of 10) 5 - sum_list (map probability (take 5 (entries_of 10)))\<bar>
     \<le> 3 / 2 ^ 54"
  "\<bar>cumulative (entries_of 25) (Suc 0) - sum_list (map probability (take (Suc 0) (entries_of 25)))\<bar>
     \<le> 3 / 2 ^ 54"
  "\<bar>cumulative (entries_of 25) 2 - sum_list (map probability (take 2 (entries_of 25)))\<bar>
     \<le> 3 / 2 ^ 54"
  "\<bar>cumulative (entries_of 25) 3 - sum_list (map probability (take 3 (entries_of 25)))\<bar>
     \<le> 3 / 2 ^ 54"
  "\<bar>cumulative (entries_of 25) 4 - sum_list (map probability (take 4 (entries_of 25)))\<bar>
     \<le> 3 / 2 ^ 54"
  "\<bar>cumulative (entries_of 25) 5 - sum_list (map probability (take 5 (entries_of 25)))\<bar>
     \<le> 3 / 2 ^ 54"
  "\<bar>cumulative (entries_of 50) (Suc 0) - sum_list (map probability (take (Suc 0) (entries_of 50)))\<bar>
     \<le> 3 / 2 ^ 54"
  "\<bar>cumulative (entries_of 50) 2 - sum_list (map probability (take 2 (entries_of 50)))\<bar>
     \<le> 3 / 2 ^ 54"
  "\<bar>cumulative (entries_of 50) 3 - sum_list (map probability (take 3 (entries_of 50)))\<bar>
     \<le> 3 / 2 ^ 54"
  "\<bar>cumulative (entries_of 50) 4 - sum_list (map probability (take 4 (entries_of 50)))\<bar>
     \<le> 3 / 2 ^ 54"
  "\<bar>cumulative (entries_of 50) 5 - sum_list (map probability (take 5 (entries_of 50)))\<bar>
     \<le> 3 / 2 ^ 54"
  by (simp_all only: cumulative_configured) (simp_all add: entries_of_configured)

text \<open>
  The approval test of the payment simulator at its boundary: the draw that is the
  float \<open>0.85\<close> is not below \<open>success_rate\<close>.
\<close>

lemma approval_boundary:
  "draw_value 0x1B333333333333 = binary64 0.85 \<and>
   \<not> draw_value 0x1B333333333333 < binary64 0.85"
  by (simp add: draw_value_def binary64_eval)

subsection \<open>The selection loop\<close>

lemma select_prize_first:
  "i < length ps \<Longrightarrow>
   r \<le> foldl fadd c (map (\<lambda>p. binary64 (probability p)) (take (Suc i) ps)) \<Longrightarrow>
   (\<forall>j<i. foldl fadd c (map (\<lambda>p. binary64 (probability p)) (take (Suc j) ps)) < r) \<Longrightarrow>
   select_prize ps r c now = prize_of_entry (ps ! i) now"
proof (induction ps arbitrary: i c)
  case Nil
  then show ?case by simp
next
  case (Cons p ps)
  show ?case
  proof (cases i)
    case 0
    with Cons.prems show ?thesis
      by (simp add: prize_of_entry_def)
  next
    case (Suc k)
    from Cons.prems(3) Suc
    have "foldl fadd c (map (\<lambda>p. binary64 (probability p)) (take (Suc 0) (p # ps))) < r"
      by blast
    then have miss: "\<not> r \<le> fadd c (binary64 (probability p))" by simp
    have "select_prize ps r (fadd c (binary64 (probability p))) now = prize_of_entry (ps ! k) now"
    proof (rule Cons.IH)
      show "k < length ps" using Cons.prems(1) Suc by simp
      show "r \<le> foldl fadd (fadd c (binary64 (probability p)))
                 (map (\<lambda>p. binary64 (probability p)) (take (Suc k) ps))"
        using Cons.prems(2) Suc by simp
      show "\<forall>j<k. foldl fadd (fadd c (binary64 (probability p)))
                 (map (\<lambda>p. binary64 (probability p)) (take (Suc j) ps)) < r"
      proof (intro allI impI)
        fix j assume "j < k"
        then have "Suc j < i" using Suc by simp
        with Cons.prems(3)
        have "foldl fadd c (map (\<lambda>p. binary64 (probability p)) (take (Suc (Suc j)) (p # ps))) < r"
          by blast
        then show "foldl fadd (fadd c (binary64 (probability p)))
                 (map (\<lambda>p. binary64 (probability p)) (take (Suc j) ps)) < r"
          by simp
      qed
    qed
    with miss Suc show ?thesis by simp
  qed
qed

lemma select_prize_cumulative:
  "i < length ps \<Longrightarrow> r \<le> cumulative ps (Suc i) \<Longrightarrow>
   (\<forall>j<i. cumulative ps (Suc j) < r) \<Longrightarrow>
   select_prize ps r 0 now = prize_of_entry (ps ! i) now"
  unfolding cumulative_def by (rule select_prize_first)

lemma first_index_exists:
  fixes f :: "nat \<Rightarrow> rat"
  assumes "n > 0" "r \<le> f n"
  shows "\<exists>i<n. r \<le> f (Suc i) \<and> (\<forall>j<i. f (Suc j) < r)"
proof -
  define P where "P k \<longleftrightarrow> r \<le> f (Suc k)" for k
  from assms have "P (n - 1)" by (simp add: P_def)
  then have ex: "\<exists>k. P k" ..
  define i where "i = (LEAST k. P k)"
  have Pi: "P i" unfolding i_def using ex by (rule LeastI_ex)
  have le: "i \<le> n - 1" unfolding i_def using \<open>P (n - 1)\<close> by (rule Least_le)
  have "\<forall>j<i. \<not> P j" unfolding i_def using not_less_Least by blast
  with Pi le assms(1) show ?thesis
    by (intro exI[of _ i]) (auto simp: P_def not_le)
qed

lemma select_prize_tier:
  "prize_tier (select_prize ps r c now) = get_prize_tier (prize_amount (select_prize ps r c now)) \<and>
   is_winner (select_prize ps r c now) = (prize_amount (select_prize ps r c now) > 0)"
  by (induction ps arbitrary: c) (simp_all add: fallback_prize_def get_prize_tier_def Let_def)

text \<open>One iteration of the loop, for evaluating it on a given list.\<close>

lemma select_prize_eval:
  "select_prize (p # ps) r c now =
    (if r \<le> binary64 (c + binary64 (probability p)) then prize_of_entry p now
     else select_prize ps r (binary64 (c + binary64 (probability p))) now)"
  by (simp add: prize_of_entry_def fadd_def Let_def)

subsection \<open>\<open>generate_prize\<close> on the configured table\<close>

lemma length_entries_configured:
  "ticket_price \<in> {5, 10, 25, 50} \<Longrightarrow> length (entries_of ticket_price) = 5"
  by (auto simp: entries_of_configured)

text \<open>
  The last value of \<open>cumulative_probability\<close> is 1 for the prices 5, 25 and 50 and
  \<open>1 - 2\<^sup>-\<^sup>5\<^sup>3\<close> for the price 10, so no draw exceeds it: the loop always returns
  at an entry, and the statements after the loop are never reached.
\<close>

lemma total_mass_configured:
  "ticket_price \<in> {5, 10, 25, 50} \<Longrightarrow>
   1 - 1 / 2 ^ 53 \<le> cumulative (entries_of ticket_price) (length (entries_of ticket_price))"
  by (auto simp: length_entries_configured cumulative_configured)

lemma draw_le_total_mass:
  assumes "ticket_price \<in> {5, 10, 25, 50}"
  shows "draw_value r \<le> cumulative (entries_of ticket_price) (length (entries_of ticket_price))"
  using total_mass_configured [OF assms] draw_value_bounds [of r] by linarith

lemma generate_prize_returns_entry:
  "\<exists>i<length (dict_get prize_pools ticket_price (entries_of 5)).
     generate_prize ticket_price r now =
       Inr (prize_of_entry (dict_get prize_pools ticket_price (entries_of 5) ! i) now)"
proof -
  define q where "q = (if ticket_price \<in> set configured_prices then ticket_price else 5)"
  have q: "q \<in> {5, 10, 25, 50}"
    by (auto simp: q_def configured_prices_list)
  have ps: "dict_get prize_pools ticket_price (entries_of 5) = entries_of q"
    by (simp add: q_def dict_get_entries_of dict_get_unconfigured)
  have len: "length (entries_of q) > 0" using q by (simp add: length_entries_configured)
  from first_index_exists [of "length (entries_of q)" "draw_value r" "cumulative (entries_of q)"]
    len draw_le_total_mass [OF q, of r]
  obtain i where i: "i < length (entries_of q)" "draw_value r \<le> cumulative (entries_of q) (Suc i)"
      "\<forall>j<i. cumulative (entries_of q) (Suc j) < draw_value r"
    by blast
  then have "select_prize (entries_of q) (draw_value r) 0 now = prize_of_entry (entries_of q ! i) now"
    by (rule select_prize_cumulative)
  with i(1) show ?thesis
    by (auto simp: generate_prize_select ps)
qed

subsection \<open>The claims about \<open>generate_prize\<close>\<close>

text \<open>
  Claim C1.  For each configured ticket price (5, 10, 25, 50) and each draw \<open>r\<close> that
  \<open>random.random()\<close> can return, \<open>generate_prize\<close> walks the entries of that price in
  their declared order and returns the outcome of the first entry whose cumulative
  probability mass is at least \<open>r\<close>: there is an index \<open>i\<close> whose cumulative mass is
  at least \<open>r\<close>, every earlier index has cumulative mass below \<open>r\<close>, and the result
  carries the amount and the message of entry \<open>i\<close>.  The cumulative mass is the value
  the loop accumulates in binary64, entry by entry.
\<close>

theorem generate_prize_first_cumulative:
  assumes "ticket_price \<in> {5, 10, 25, 50}"
  shows "\<exists>i<length (entries_of ticket_price).
           draw_value r \<le> cumulative (entries_of ticket_price) (Suc i) \<and>
           (\<forall>j<i. cumulative (entries_of ticket_price) (Suc j) < draw_value r) \<and>
           generate_prize ticket_price r now = Inr (prize_of_entry (entries_of ticket_price ! i) now)"
proof -
  let ?ps = "entries_of ticket_price"
  have len: "length ?ps > 0" using assms by (simp add: length_entries_configured)
  from first_index_exists [of "length ?ps" "draw_value r" "cumulative ?ps"]
    len draw_le_total_mass [OF assms, of r]
  obtain i where i: "i < length ?ps" "draw_value r \<le> cumulative ?ps (Suc i)"
      "\<forall>j<i. cumulative ?ps (Suc j) < draw_value r"
    by blast
  then have "select_prize ?ps (draw_value r) 0 now = prize_of_entry (?ps ! i) now"
    by (rule select_prize_cumulative)
  moreover have "ticket_price \<in> set configured_prices"
    using assms by (auto simp: configured_prices_list)
  ultimately have "generate_prize ticket_price r now = Inr (prize_of_entry (?ps ! i) now)"
    by (simp add: generate_prize_select dict_get_entries_of)
  with i show ?thesis by blast
qed

text \<open>
  The claim at price 10 and the draw that is the float \<open>0.98\<close>.  The loop's sum after
  three entries is the float below \<open>0.98\<close>, so the walk passes the third entry and stops
  at the fourth (amount 100).
\<close>

theorem generate_prize_first_cumulative_witness:
  "(10::rat) \<in> {5, 10, 25, 50} \<and>
   draw_value 0x1F5C28F5C28F5C = binary64 0.98 \<and>
   (\<exists>i<length (entries_of 10).
      draw_value 0x1F5C28F5C28F5C \<le> cumulative (entries_of 10) (Suc i) \<and>
      (\<forall>j<i. cumulative (entries_of 10) (Suc j) < draw_value 0x1F5C28F5C28F5C) \<and>
      generate_prize 10 0x1F5C28F5C28F5C ''2025-01-01T12:00:00'' =
        Inr (prize_of_entry (entries_of 10 ! i) ''2025-01-01T12:00:00'')) \<and>
   cumulative (entries_of 10) 3 < draw_value 0x1F5C28F5C28F5C \<and>
   draw_value 0x1F5C28F5C28F5C \<le> cumulative (entries_of 10) 4 \<and>
   generate_prize 10 0x1F5C28F5C28F5C ''2025-01-01T12:00:00'' =
     Inr \<lparr>prize_amount = 100, prize_message = msg_grande, is_winner = True,
          prize_tier = ''major'', timestamp = ''2025-01-01T12:00:00''\<rparr>"
proof -
  have dv: "draw_value 0x1F5C28F5C28F5C = 8827055269646172 / 2 ^ 53"
    by (simp add: draw_value_def)
  have lit: "draw_value 0x1F5C28F5C28F5C = binary64 0.98"
    unfolding dv by (simp add: binary64_eval)
  have lo: "cumulative (entries_of 10) 3 < draw_value 0x1F5C28F5C28F5C"
    unfolding dv by (simp add: cumulative_10)
  have hi: "draw_value 0x1F5C28F5C28F5C \<le> cumulative (entries_of 10) 4"
    unfolding dv by (simp add: cumulative_10)
  have c1: "cumulative (entries_of 10) (Suc 0) < draw_value 0x1F5C28F5C28F5C"
    unfolding dv by (simp add: cumulative_10)
  have c2: "cumulative (entries_of 10) 2 < draw_value 0x1F5C28F5C28F5C"
    unfolding dv by (simp add: cumulative_10)
  have before: "\<forall>j<3. cumulative (entries_of 10) (Suc j) < draw_value 0x1F5C28F5C28F5C"
  proof (intro allI impI)
    fix j :: nat assume "j < 3"
    then consider "j = 0" | "j = 1" | "j = 2" by linarith
    then show "cumulative (entries_of 10) (Suc j) < draw_value 0x1F5C28F5C28F5C"
    proof cases
      case 1
      then have "Suc j = Suc 0" by simp
      with c1 show ?thesis by (simp only:)
    next
      case 2
      then have "Suc j = 2" by simp
      with c2 show ?thesis by (simp only:)
    next
      case 3
      then have "Suc j = 3" by simp
      with lo show ?thesis by (simp only:)
    qed
  qed
  have hi': "draw_value 0x1F5C28F5C28F5C \<le> cumulative (entries_of 10) (Suc 3)"
    using hi by simp
  have "select_prize (entries_of 10) (draw_value 0x1F5C28F5C28F5C) 0 ''2025-01-01T12:00:00'' =
      prize_of_entry (entries_of 10 ! 3) ''2025-01-01T12:00:00''"
    using hi' before by (intro select_prize_cumulative) (simp_all add: entries_of_10)
  then have res: "generate_prize 10 0x1F5C28F5C28F5C ''2025-01-01T12:00:00'' =
     Inr \<lparr>prize_amount = 100, prize_message = msg_grande, is_winner = True,
          prize_tier = ''major'', timestamp = ''2025-01-01T12:00:00''\<rparr>"
    by (simp add: generate_prize_select dict_get_entries_of configured_prices_list)
       (simp add: entries_of_10 prize_of_entry_def get_prize_tier_def)
  from generate_prize_first_cumulative [of 10 "0x1F5C28F5C28F5C" "''2025-01-01T12:00:00''"]
    lit lo hi res
  show ?thesis by simp
qed


text \<open>
  Claim C5.  For a ticket price that is not a key of the prize table,
  \<open>generate_prize\<close> does not fail: it walks the entry list of the 5-unit tier, so its
  result is the one it gives for price 5 with the same draw.
\<close>

theorem generate_prize_unconfigured:
  assumes "ticket_price \<notin> set configured_prices"
  shows "generate_prize ticket_price r now =
           Inr (select_prize (entries_of 5) (draw_value r) 0 now) \<and>
         generate_prize ticket_price r now = generate_prize 5 r now"
  using assms
  by (simp add: generate_prize_select dict_get_unconfigured dict_get_entries_of
      configured_prices_list)

text \<open>The claim at price 7 and draw 0.8125.\<close>

theorem generate_prize_unconfigured_witness:
  "(7::rat) \<notin> set configured_prices \<and>
   generate_prize 7 0x1A000000000000 ''2025-01-01T12:00:00'' =
     Inr (select_prize (entries_of 5) (draw_value 0x1A000000000000) 0 ''2025-01-01T12:00:00'') \<and>
   generate_prize 7 0x1A000000000000 ''2025-01-01T12:00:00'' =
     generate_prize 5 0x1A000000000000 ''2025-01-01T12:00:00'' \<and>
   draw_value 0x1A000000000000 = 13 / 16 \<and>
   select_prize (entries_of 5) (draw_value 0x1A000000000000) 0 ''2025-01-01T12:00:00'' =
     \<lparr>prize_amount = 5, prize_message = ''Recuperou o valor!'', is_winner = True,
      prize_tier = ''consolation'', timestamp = ''2025-01-01T12:00:00''\<rparr>"
proof -
  have dv: "draw_value 0x1A000000000000 = 13 / 16"
    by (simp add: draw_value_def)
  have "select_prize (entries_of 5) (draw_value 0x1A000000000000) 0 ''2025-01-01T12:00:00'' =
     \<lparr>prize_amount = 5, prize_message = ''Recuperou o valor!'', is_winner = True,
      prize_tier = ''consolation'', timestamp = ''2025-01-01T12:00:00''\<rparr>"
    unfolding dv entries_of_5 select_prize_eval binary64_literals
    by (simp add: binary64_eval prize_of_entry_def get_prize_tier_def msg_recuperou_def)
  with dv show ?thesis
    using generate_prize_unconfigured [of 7 "0x1A000000000000" "''2025-01-01T12:00:00''"]
    by (simp add: configured_prices_list generate_prize_select dict_get_entries_of)
qed

text \<open>
  Claim C9.  Every call of \<open>generate_prize\<close> returns an outcome, and in that outcome
  the tier is the function of the amount given by: at least 1000 is "jackpot", at
  least 100 is "major", at least 10 is "minor", above 0 is "consolation", otherwise
  "none"; and \<open>is_winner\<close> holds exactly when the amount is above 0.
\<close>

theorem generated_prize_tier:
  "\<exists>pz. generate_prize ticket_price r now = Inr pz \<and>
     prize_tier pz =
       (if prize_amount pz \<ge> 1000 then ''jackpot''
        else if prize_amount pz \<ge> 100 then ''major''
        else if prize_amount pz \<ge> 10 then ''minor''
        else if prize_amount pz > 0 then ''consolation''
        else ''none'') \<and>
     is_winner pz = (prize_amount pz > 0)"
  using select_prize_tier
    [of "dict_get prize_pools ticket_price (entries_of 5)" "draw_value r" 0 now]
  by (simp add: generate_prize_select get_prize_tier_def)

text \<open>
  The claim at price 25 and the largest draw, \<open>1 - 2\<^sup>-\<^sup>5\<^sup>3\<close>, which selects the
  jackpot of 1000.
\<close>

theorem generated_prize_tier_witness:
  "(\<exists>pz. generate_prize 25 0x1FFFFFFFFFFFFF ''2025-01-01T12:00:00'' = Inr pz \<and>
     prize_tier pz =
       (if prize_amount pz \<ge> 1000 then ''jackpot''
        else if prize_amount pz \<ge> 100 then ''major''
        else if prize_amount pz \<ge> 10 then ''minor''
        else if prize_amount pz > 0 then ''consolation''
        else ''none'') \<and>
     is_winner pz = (prize_amount pz > 0)) \<and>
   generate_prize 25 0x1FFFFFFFFFFFFF ''2025-01-01T12:00:00'' =
     Inr \<lparr>prize_amount = 1000, prize_message = ''JACKPOT!'', is_winner = True,
          prize_tier = ''jackpot'', timestamp = ''2025-01-01T12:00:00''\<rparr>"
proof -
  have dv: "draw_value 0x1FFFFFFFFFFFFF = 9007199254740991 / 2 ^ 53"
    by (simp add: draw_value_def)
  have "select_prize (entries_of 25) (draw_value 0x1FFFFFFFFFFFFF) 0 ''2025-01-01T12:00:00'' =
     \<lparr>prize_amount = 1000, prize_message = ''JACKPOT!'', is_winner = True,
      prize_tier = ''jackpot'', timestamp = ''2025-01-01T12:00:00''\<rparr>"
    unfolding dv entries_of_25 select_prize_eval binary64_literals
    by (simp add: binary64_eval prize_of_entry_def get_prize_tier_def msg_jackpot_def)
  then have "generate_prize 25 0x1FFFFFFFFFFFFF ''2025-01-01T12:00:00'' =
     Inr \<lparr>prize_amount = 1000, prize_message = ''JACKPOT!'', is_winner = True,
          prize_tier = ''jackpot'', timestamp = ''2025-01-01T12:00:00''\<rparr>"
    by (simp add: generate_prize_select dict_get_entries_of configured_prices_list)
  then show ?thesis
    using generated_prize_tier [of 25 "0x1FFFFFFFFFFFFF" "''2025-01-01T12:00:00''"]
    by simp
qed

text \<open>
  Claim C10.  For each configured ticket price (5, 10, 25, 50) the probabilities of its
  entries, taken as the exact decimal values of the literals, sum to 1, hence to 1
  within the tolerance \<open>10\<^sup>-\<^sup>9\<close>.
\<close>

theorem prize_probabilities_sum_to_one:
  assumes "ticket_price \<in> {5, 10, 25, 50}"
  shows "sum_list (map probability (entries_of ticket_price)) = 1 \<and>
         \<bar>sum_list (map probability (entries_of ticket_price)) - 1\<bar> \<le> 1 / 10 ^ 9"
  using assms by (auto simp: entries_of_configured)

text \<open>The claim at price 10.\<close>

theorem prize_probabilities_sum_to_one_witness:
  "(10::rat) \<in> {5, 10, 25, 50} \<and>
   sum_list (map probability (entries_of 10)) = 1 \<and>
   \<bar>sum_list (map probability (entries_of 10)) - 1\<bar> \<le> 1 / 10 ^ 9 \<and>
   map probability (entries_of 10) = [0.70, 0.18, 0.10, 0.019, 0.001]"
  using prize_probabilities_sum_to_one [of 10]
  by (simp add: entries_of_10)

section \<open>Properties of the stores and the endpoints\<close>

subsection \<open>\<open>scratch_ticket\<close>\<close>

lemma scratch_ticket_missing:
  "map_of (tickets_db s) tid = None \<Longrightarrow>
   scratch_ticket tid now s = (Inl (HTTPException 404 detail_not_found), s)"
  by (simp add: scratch_ticket_def)

lemma scratch_ticket_scratched:
  "map_of (tickets_db s) tid = Some t \<Longrightarrow> scratched t \<Longrightarrow>
   scratch_ticket tid now s = (Inl (HTTPException 400 detail_already_scratched), s)"
  by (simp add: scratch_ticket_def)

lemma scratch_ticket_fresh:
  "map_of (tickets_db s) tid = Some t \<Longrightarrow> \<not> scratched t \<Longrightarrow>
   scratch_ticket tid now s =
     (Inr \<lparr>sr_ticket_id = tid, sr_prize = ticket_prize t,
           sr_message = ''Bilhete raspado com sucesso!''\<rparr>,
      s\<lparr>tickets_db :=
          AList.update tid (t\<lparr>scratched := True, scratched_at := Some now\<rparr>) (tickets_db s)\<rparr>)"
  by (simp add: scratch_ticket_def)

lemma scratch_calls_scratched:
  "map_of (tickets_db s) tid = Some t \<Longrightarrow> scratched t \<Longrightarrow>
   scratch_calls tid nows s =
     (replicate (length nows) (Inl (HTTPException 400 detail_already_scratched)), s)"
  by (induction nows) (simp_all add: scratch_ticket_scratched)

text \<open>
  Claim C2.  \<open>scratch_ticket\<close> fails with status 404 and leaves the stores as they
  are when the id is not in the ticket store.  It fails with status 400 and leaves the
  stores as they are when the ticket is already scratched, and so does every further
  call on that id, so the ticket's prize and \<open>scratched_at\<close> never change again.  On
  a ticket that is not yet scratched the call succeeds and returns the stored prize,
  and every later call on the same id fails with status 400 without changing the stores.
\<close>

theorem scratch_ticket_errors:
  "(map_of (tickets_db s) tid = None \<longrightarrow>
      scratch_ticket tid now s = (Inl (HTTPException 404 detail_not_found), s)) \<and>
   (\<forall>t. map_of (tickets_db s) tid = Some t \<and> scratched t \<longrightarrow>
      scratch_ticket tid now s = (Inl (HTTPException 400 detail_already_scratched), s) \<and>
      scratch_calls tid nows s =
        (replicate (length nows) (Inl (HTTPException 400 detail_already_scratched)), s)) \<and>
   (\<forall>t. map_of (tickets_db s) tid = Some t \<and> \<not> scratched t \<longrightarrow>
      (\<exists>s'. scratch_ticket tid now s =
               (Inr \<lparr>sr_ticket_id = tid, sr_prize = ticket_prize t,
                     sr_message = ''Bilhete raspado com sucesso!''\<rparr>, s') \<and>
            map_of (tickets_db s') tid =
              Some (t\<lparr>scratched := True, scratched_at := Some now\<rparr>) \<and>
            scratch_calls tid nows s' =
              (replicate (length nows) (Inl (HTTPException 400 detail_already_scratched)), s')))"
proof (intro conjI allI impI)
  assume "map_of (tickets_db s) tid = None"
  then show "scratch_ticket tid now s = (Inl (HTTPException 404 detail_not_found), s)"
    by (rule scratch_ticket_missing)
next
  fix t assume "map_of (tickets_db s) tid = Some t \<and> scratched t"
  then show "scratch_ticket tid now s = (Inl (HTTPException 400 detail_already_scratched), s)"
    by (simp add: scratch_ticket_scratched)
next
  fix t assume "map_of (tickets_db s) tid = Some t \<and> scratched t"
  then show "scratch_calls tid nows s =
        (replicate (length nows) (Inl (HTTPException 400 detail_already_scratched)), s)"
    by (simp add: scratch_calls_scratched)
next
  fix t assume a: "map_of (tickets_db s) tid = Some t \<and> \<not> scratched t"
  let ?t' = "t\<lparr>scratched := True, scratched_at := Some now\<rparr>"
  let ?s' = "s\<lparr>tickets_db := AList.update tid ?t' (tickets_db s)\<rparr>"
  have look: "map_of (tickets_db ?s') tid = Some ?t'"
    by (simp add: update_conv')
  have "scratched ?t'" by simp
  with look have "scratch_calls tid nows ?s' =
      (replicate (length nows) (Inl (HTTPException 400 detail_already_scratched)), ?s')"
    by (rule scratch_calls_scratched)
  with a look show "\<exists>s'. scratch_ticket tid now s =
               (Inr \<lparr>sr_ticket_id = tid, sr_prize = ticket_prize t,
                     sr_message = ''Bilhete raspado com sucesso!''\<rparr>, s') \<and>
            map_of (tickets_db s') tid =
              Some (t\<lparr>scratched := True, scratched_at := Some now\<rparr>) \<and>
            scratch_calls tid nows s' =
              (replicate (length nows) (Inl (HTTPException 400 detail_already_scratched)), s')"
    by (intro exI[of _ ?s']) (simp add: scratch_ticket_fresh)
qed

text \<open>
  The claim on the example store: an unknown id gives 404; the first scratch of the
  stored ticket returns its prize; two further calls both give 400 and change nothing.
\<close>

theorem scratch_ticket_errors_witness:
  "map_of (tickets_db example_state) ''ticket_00000000'' = None \<and>
   scratch_ticket ''ticket_00000000'' ''2025-01-02T08:30:00'' example_state =
     (Inl (HTTPException 404 detail_not_found), example_state) \<and>
   map_of (tickets_db example_state) ''ticket_1a2b3c4d'' = Some example_ticket \<and>
   \<not> scratched example_ticket \<and>
   scratch_ticket ''ticket_1a2b3c4d'' ''2025-01-02T08:30:00'' example_state =
     (Inr \<lparr>sr_ticket_id = ''ticket_1a2b3c4d'', sr_prize = example_prize,
           sr_message = ''Bilhete raspado com sucesso!''\<rparr>, example_scratched_state) \<and>
   scratch_calls ''ticket_1a2b3c4d'' [''2025-01-02T08:31:00'', ''2025-01-02T08:32:00'']
       example_scratched_state =
     ([Inl (HTTPException 400 detail_already_scratched),
       Inl (HTTPException 400 detail_already_scratched)], example_scratched_state)"
proof -
  have look: "map_of (tickets_db example_state) ''ticket_1a2b3c4d'' = Some example_ticket"
    by (simp add: example_state_def)
  have fresh: "\<not> scratched example_ticket"
    by (simp add: example_ticket_def)
  have miss: "map_of (tickets_db example_state) ''ticket_00000000'' = None"
    by (simp add: example_state_def)
  have upd: "example_state\<lparr>tickets_db :=
       AList.update ''ticket_1a2b3c4d''
         (example_ticket\<lparr>scratched := True, scratched_at := Some ''2025-01-02T08:30:00''\<rparr>)
         (tickets_db example_state)\<rparr> = example_scratched_state"
    by (simp add: example_state_def example_scratched_state_def)
  have first: "scratch_ticket ''ticket_1a2b3c4d'' ''2025-01-02T08:30:00'' example_state =
     (Inr \<lparr>sr_ticket_id = ''ticket_1a2b3c4d'', sr_prize = example_prize,
           sr_message = ''Bilhete raspado com sucesso!''\<rparr>, example_scratched_state)"
    using scratch_ticket_fresh [OF look fresh, of "''2025-01-02T08:30:00''"]
    by (simp add: upd) (simp add: example_ticket_def)
  from scratch_ticket_errors [of example_state "''ticket_1a2b3c4d''" "''2025-01-02T08:30:00''"
      "[''2025-01-02T08:31:00'', ''2025-01-02T08:32:00'']"] look fresh
  obtain s' where s': "scratch_ticket ''ticket_1a2b3c4d'' ''2025-01-02T08:30:00'' example_state =
               (Inr \<lparr>sr_ticket_id = ''ticket_1a2b3c4d'', sr_prize = ticket_prize example_ticket,
                     sr_message = ''Bilhete raspado com sucesso!''\<rparr>, s')"
     "scratch_calls ''ticket_1a2b3c4d'' [''2025-01-02T08:31:00'', ''2025-01-02T08:32:00''] s' =
        (replicate (length [''2025-01-02T08:31:00'', ''2025-01-02T08:32:00''])
           (Inl (HTTPException 400 detail_already_scratched)), s')"
    by blast
  from s'(1) first have "s' = example_scratched_state" by simp
  with s'(2) have later: "scratch_calls ''ticket_1a2b3c4d''
       [''2025-01-02T08:31:00'', ''2025-01-02T08:32:00''] example_scratched_state =
     ([Inl (HTTPException 400 detail_already_scratched),
       Inl (HTTPException 400 detail_already_scratched)], example_scratched_state)"
    by simp
  from scratch_ticket_errors [of example_state "''ticket_00000000''" "''2025-01-02T08:30:00''" "[]"]
    miss
  have "scratch_ticket ''ticket_00000000'' ''2025-01-02T08:30:00'' example_state =
     (Inl (HTTPException 404 detail_not_found), example_state)"
    by blast
  with look fresh miss first later show ?thesis by blast
qed

lemma map_of_key_in: "map_of al k = Some v \<Longrightarrow> k \<in> set (map fst al)"
  by (auto dest: map_of_SomeD intro: rev_image_eqI)

text \<open>
  Claim C7.  A successful \<open>scratch_ticket\<close> returns the stored prize and replaces
  the ticket by one that differs only in \<open>scratched\<close> (now true) and \<open>scratched_at\<close>
  (now the clock value): id, payment id, price, creation time and prize are the same.
  Every other ticket, the order of the keys, the payments and the simulator's
  transactions are unchanged.
\<close>

theorem scratch_ticket_frame:
  assumes "map_of (tickets_db s) tid = Some t" and "\<not> scratched t"
  shows "\<exists>s' t'.
     scratch_ticket tid now s =
       (Inr \<lparr>sr_ticket_id = tid, sr_prize = ticket_prize t,
             sr_message = ''Bilhete raspado com sucesso!''\<rparr>, s') \<and>
     map_of (tickets_db s') tid = Some t' \<and>
     t' = t\<lparr>scratched := True, scratched_at := Some now\<rparr> \<and>
     scratched t' \<and> scratched_at t' = Some now \<and>
     ticket_id t' = ticket_id t \<and> payment_id t' = payment_id t \<and> price t' = price t \<and>
     created_at t' = created_at t \<and> ticket_prize t' = ticket_prize t \<and>
     (\<forall>k. k \<noteq> tid \<longrightarrow> map_of (tickets_db s') k = map_of (tickets_db s) k) \<and>
     map fst (tickets_db s') = map fst (tickets_db s) \<and>
     payments_db s' = payments_db s \<and> transactions s' = transactions s"
proof -
  let ?t' = "t\<lparr>scratched := True, scratched_at := Some now\<rparr>"
  let ?s' = "s\<lparr>tickets_db := AList.update tid ?t' (tickets_db s)\<rparr>"
  have key: "tid \<in> set (map fst (tickets_db s))"
    using assms(1) by (rule map_of_key_in)
  have res: "scratch_ticket tid now s =
       (Inr \<lparr>sr_ticket_id = tid, sr_prize = ticket_prize t,
             sr_message = ''Bilhete raspado com sucesso!''\<rparr>, ?s')"
    using assms by (rule scratch_ticket_fresh)
  have look: "map_of (tickets_db ?s') tid = Some ?t'"
    by (simp add: update_conv')
  have others: "\<forall>k. k \<noteq> tid \<longrightarrow> map_of (tickets_db ?s') k = map_of (tickets_db s) k"
    by (simp add: update_conv')
  have keys: "map fst (tickets_db ?s') = map fst (tickets_db s)"
    using key by (simp add: update_keys)
  show ?thesis
    apply (rule exI[of _ ?s'])
    apply (rule exI[of _ ?t'])
    using res look others keys by simp
qed

text \<open>The claim on the example store.\<close>

theorem scratch_ticket_frame_witness:
  "map_of (tickets_db example_state) ''ticket_1a2b3c4d'' = Some example_ticket \<and>
   \<not> scratched example_ticket \<and>
   (\<exists>s' t'.
     scratch_ticket ''ticket_1a2b3c4d'' ''2025-01-02T08:30:00'' example_state =
       (Inr \<lparr>sr_ticket_id = ''ticket_1a2b3c4d'', sr_prize = ticket_prize example_ticket,
             sr_message = ''Bilhete raspado com sucesso!''\<rparr>, s') \<and>
     map_of (tickets_db s') ''ticket_1a2b3c4d'' = Some t' \<and>
     t' = example_ticket\<lparr>scratched := True, scratched_at := Some ''2025-01-02T08:30:00''\<rparr> \<and>
     scratched t' \<and> scratched_at t' = Some ''2025-01-02T08:30:00'' \<and>
     ticket_id t' = ticket_id example_ticket \<and> payment_id t' = payment_id example_ticket \<and>
     price t' = price example_ticket \<and>
     created_at t' = created_at example_ticket \<and> ticket_prize t' = ticket_prize example_ticket \<and>
     (\<forall>k. k \<noteq> ''ticket_1a2b3c4d'' \<longrightarrow>
         map_of (tickets_db s') k = map_of (tickets_db example_state) k) \<and>
     map fst (tickets_db s') = map fst (tickets_db example_state) \<and>
     payments_db s' = payments_db example_state \<and>
     transactions s' = transactions example_state)"
proof -
  have look: "map_of (tickets_db example_state) ''ticket_1a2b3c4d'' = Some example_ticket"
    by (simp add: example_state_def)
  have fresh: "\<not> scratched example_ticket"
    by (simp add: example_ticket_def)
  from scratch_ticket_frame [OF look fresh, of "''2025-01-02T08:30:00''"] look fresh
  show ?thesis by blast
qed

subsection \<open>\<open>process_payment\<close> with an amount that is not a ticket price\<close>

lemma process_payment_try_invalid:
  "req_amount rq \<notin> set valid_prices \<Longrightarrow>
   process_payment_try rq d s = (Inl (HTTPException 400 detail_invalid_price), s)"
  by (simp add: process_payment_try_def)

text \<open>
  Claim C8.  When the amount of the request is not one of the ticket prices 5, 10, 25,
  50, \<open>process_payment\<close> adds no ticket and no payment record: the ticket store and
  the payment store, and with them the whole state, are unchanged.
\<close>

theorem process_payment_invalid_no_effects:
  assumes "req_amount rq \<notin> set valid_prices"
  shows "tickets_db (snd (process_payment str_of rq d s)) = tickets_db s \<and>
         payments_db (snd (process_payment str_of rq d s)) = payments_db s \<and>
         snd (process_payment str_of rq d s) = s"
  using assms by (simp add: process_payment_def process_payment_try_invalid)

text \<open>The claim for amount 7 on the example store.\<close>

theorem process_payment_invalid_no_effects_witness:
  "req_amount example_request \<notin> set valid_prices \<and>
   tickets_db (snd (process_payment (\<lambda>e. []) example_request example_draws example_state)) =
     [(''ticket_1a2b3c4d'', example_ticket)] \<and>
   payments_db (snd (process_payment (\<lambda>e. []) example_request example_draws example_state)) = [] \<and>
   snd (process_payment (\<lambda>e. []) example_request example_draws example_state) = example_state"
  using process_payment_invalid_no_effects [of example_request "\<lambda>e. []" example_draws example_state]
  by (simp add: example_request_def valid_prices_def example_state_def)

text \<open>
  Claim C3 says that such a request is answered with status 400.  The source raises
  \<open>HTTPException(status_code=400)\<close> inside the \<open>try\<close> block, where
  \<open>except Exception\<close> catches it and raises status 500 in its place: the endpoint
  answers 500 for every amount that is not a ticket price, and never 400.
\<close>

theorem process_payment_invalid_is_500:
  assumes "req_amount rq \<notin> set valid_prices"
  shows "fst (process_payment str_of rq d s) =
           Inl (HTTPException 500
                  (''Erro interno: '' @ str_of (HTTPException 400 detail_invalid_price))) \<and>
         (\<forall>dt. fst (process_payment str_of rq d s) \<noteq> Inl (HTTPException 400 dt))"
  using assms by (simp add: process_payment_def process_payment_try_invalid)

text \<open>
  The request with amount 7, with \<open>str(e)\<close> taken to be empty: the answer is
  status 500.
\<close>

theorem process_payment_invalid_is_500_witness:
  "req_amount example_request = 7 \<and> req_amount example_request \<notin> set valid_prices \<and>
   fst (process_payment (\<lambda>e. []) example_request example_draws example_state) =
     Inl (HTTPException 500 ''Erro interno: '') \<and>
   fst (process_payment (\<lambda>e. []) example_request example_draws example_state)
     \<noteq> Inl (HTTPException 400 detail_invalid_price)"
  using process_payment_invalid_is_500 [of example_request "\<lambda>e. []" example_draws example_state]
  by (simp add: example_request_def valid_prices_def)

subsection \<open>\<open>get_statistics\<close>\<close>

lemma sum_list_nonneg_rat:
  fixes xs :: "rat list"
  shows "(\<forall>x\<in>set xs. 0 \<le> x) \<Longrightarrow> 0 \<le> sum_list xs"
  by (induction xs) simp_all

text \<open>
  Claim C6.  In the summary of a ticket store, the total collected is the sum of the
  prices of all tickets; the total paid out is the sum of the prize amounts of the
  scratched tickets; \<open>winners_count\<close> counts the scratched tickets whose prize amount
  is above 0; \<open>win_rate\<close> is \<open>winners_count\<close> divided by the number of tickets, and
  0 when there are none; \<open>house_edge\<close> is collected minus paid out, divided by
  collected, and 0 when nothing was collected.  The source tests \<open>total_payments > 0\<close>,
  so the statement is for stores whose prices are not negative, which holds for every
  store the endpoints can produce.
\<close>

theorem get_statistics_summary:
  assumes "list_all (\<lambda>t. 0 \<le> price t) (map snd (tickets_db s))"
  shows "total_tickets (get_statistics s) = length (tickets_db s) \<and>
     total_payments (get_statistics s) = (\<Sum>t\<leftarrow>map snd (tickets_db s). price t) \<and>
     total_prizes (get_statistics s) =
       (\<Sum>t\<leftarrow>filter scratched (map snd (tickets_db s)). prize_amount (ticket_prize t)) \<and>
     winners_count (get_statistics s) =
       length (filter (\<lambda>t. scratched t \<and> 0 < prize_amount (ticket_prize t))
                 (map snd (tickets_db s))) \<and>
     win_rate (get_statistics s) =
       (if total_tickets (get_statistics s) = 0 then 0
        else of_nat (winners_count (get_statistics s)) / of_nat (total_tickets (get_statistics s))) \<and>
     house_edge (get_statistics s) =
       (if total_payments (get_statistics s) = 0 then 0
        else (total_payments (get_statistics s) - of_int (total_prizes (get_statistics s)))
               / total_payments (get_statistics s))"
proof -
  have "0 \<le> (\<Sum>t\<leftarrow>map snd (tickets_db s). price t)"
    using assms by (intro sum_list_nonneg_rat) (auto simp: list_all_iff)
  then have "(0 < (\<Sum>t\<leftarrow>map snd (tickets_db s). price t))
      = ((\<Sum>t\<leftarrow>map snd (tickets_db s). price t) \<noteq> 0)"
    by auto
  then show ?thesis
    by (simp add: get_statistics_def Let_def)
qed

text \<open>
  The claim on a store of three tickets (collected 40, paid out 15, one winner), and
  the summary of the empty store.
\<close>

theorem get_statistics_summary_witness:
  "list_all (\<lambda>t. 0 \<le> price t) (map snd (tickets_db example_store)) \<and>
   length (tickets_db example_store) = 3 \<and>
   total_tickets (get_statistics example_store) = 3 \<and>
   total_payments (get_statistics example_store) = 40 \<and>
   total_prizes (get_statistics example_store) = 15 \<and>
   winners_count (get_statistics example_store) = 1 \<and>
   win_rate (get_statistics example_store) = 1 / 3 \<and>
   house_edge (get_statistics example_store) = 5 / 8 \<and>
   get_statistics initial_state =
     \<lparr>total_tickets = 0, total_payments = 0, total_prizes = 0, winners_count = 0,
      win_rate = 0, house_edge = 0\<rparr>"
proof -
  have ts: "map snd (tickets_db example_store) =
      [example_ticket, example_ticket_won, example_ticket_lost]"
    by (simp add: example_store_def)
  have nonneg: "list_all (\<lambda>t. 0 \<le> price t) (map snd (tickets_db example_store))"
    by (simp add: ts example_ticket_def example_ticket_won_def example_ticket_lost_def)
  have len: "length (tickets_db example_store) = 3"
    by (simp add: example_store_def)
  have empty: "get_statistics initial_state =
     \<lparr>total_tickets = 0, total_payments = 0, total_prizes = 0, winners_count = 0,
      win_rate = 0, house_edge = 0\<rparr>"
    by (simp add: get_statistics_def initial_state_def)
  from get_statistics_summary [OF nonneg] nonneg len empty show ?thesis
    by (simp add: ts example_ticket_def example_ticket_won_def example_ticket_lost_def
        example_prize_def)
qed

subsection \<open>Invariants of the reachable stores\<close>

lemma list_all_update:
  "list_all P (map snd al) \<Longrightarrow> P v \<Longrightarrow> list_all P (map snd (AList.update k v al))"
  by (induction al) auto

lemma process_payment_tickets:
  "tickets_db (snd (process_payment str_of rq d s)) = tickets_db s \<or>
   (req_amount rq \<in> set valid_prices \<and>
    (\<exists>tid t. price t = req_amount rq \<and> \<not> scratched t \<and>
       tickets_db (snd (process_payment str_of rq d s)) = AList.update tid t (tickets_db s)))"
proof (cases "req_amount rq \<in> set valid_prices")
  case False
  then show ?thesis by (simp add: process_payment_def process_payment_try_def)
next
  case True
  show ?thesis
  proof (cases "draw_value (approval_draw d) < binary64 0.85")
    case approved: True
    obtain pz where pz: "generate_prize (req_amount rq) (prize_draw d) (now_prize d) = Inr pz"
      by (simp add: generate_prize_select)
    let ?t = "\<lparr>ticket_id = ''ticket_'' @ ticket_uuid d,
                payment_id = ''mp_payment_'' @ payment_uuid d,
                price = req_amount rq, ticket_prize = pz,
                created_at = now_ticket d, scratched = False,
                scratched_at = None\<rparr>"
    have "tickets_db (snd (process_payment str_of rq d s)) =
        AList.update (''ticket_'' @ ticket_uuid d) ?t (tickets_db s)"
      using True approved pz
      by (simp add: process_payment_def process_payment_try_def mp_process_payment_def Let_def)
    moreover have "price ?t = req_amount rq \<and> \<not> scratched ?t" by simp
    ultimately show ?thesis using True by blast
  next
    case rejected: False
    have "fs_status (random_choice (scenario_draw d) failure_scenarios) \<noteq> ''approved''"
    proof -
      have "scenario_draw d mod 4 \<in> {0, 1, 2, 3}" by auto
      then show ?thesis
        by (auto simp: random_choice_def failure_scenarios_def)
    qed
    with True rejected show ?thesis
      by (simp add: process_payment_def process_payment_try_def mp_process_payment_def Let_def)
  qed
qed

lemma scratch_ticket_tickets:
  "tickets_db (snd (scratch_ticket tid now s)) = tickets_db s \<or>
   (\<exists>t. map_of (tickets_db s) tid = Some t \<and>
      tickets_db (snd (scratch_ticket tid now s)) =
        AList.update tid (t\<lparr>scratched := True, scratched_at := Some now\<rparr>) (tickets_db s))"
  by (simp add: scratch_ticket_def split: option.splits)

lemma map_of_list_all:
  "map_of al k = Some v \<Longrightarrow> list_all P (map snd al) \<Longrightarrow> P v"
  by (auto simp: list_all_iff dest!: map_of_SomeD)

lemma reachable_prices_valid:
  "reachable s \<Longrightarrow> list_all (\<lambda>t. price t \<in> set valid_prices) (map snd (tickets_db s))"
proof (induction rule: reachable.induct)
  case reachable_init
  show ?case by (simp add: initial_state_def)
next
  case (reachable_payment s str_of rq d)
  from process_payment_tickets [of str_of rq d s] show ?case
  proof
    assume "tickets_db (snd (process_payment str_of rq d s)) = tickets_db s"
    with reachable_payment.IH show ?thesis by simp
  next
    assume "req_amount rq \<in> set valid_prices \<and>
      (\<exists>tid t. price t = req_amount rq \<and> \<not> scratched t \<and>
        tickets_db (snd (process_payment str_of rq d s)) = AList.update tid t (tickets_db s))"
    then obtain tid t where valid: "req_amount rq \<in> set valid_prices"
      and eq: "price t = req_amount rq"
      and upd: "tickets_db (snd (process_payment str_of rq d s)) = AList.update tid t (tickets_db s)"
      by blast
    from valid eq have "price t \<in> set valid_prices" by simp
    with upd have t: "price t \<in> set valid_prices"
      "tickets_db (snd (process_payment str_of rq d s)) = AList.update tid t (tickets_db s)"
      by simp_all
    with reachable_payment.IH show ?thesis
      by (simp add: list_all_update)
  qed
next
  case (reachable_scratch s tid now)
  from scratch_ticket_tickets [of tid now s] show ?case
  proof
    assume "tickets_db (snd (scratch_ticket tid now s)) = tickets_db s"
    with reachable_scratch.IH show ?thesis by simp
  next
    assume "\<exists>t. map_of (tickets_db s) tid = Some t \<and>
      tickets_db (snd (scratch_ticket tid now s)) =
        AList.update tid (t\<lparr>scratched := True, scratched_at := Some now\<rparr>) (tickets_db s)"
    then obtain t where t: "map_of (tickets_db s) tid = Some t"
      "tickets_db (snd (scratch_ticket tid now s)) =
        AList.update tid (t\<lparr>scratched := True, scratched_at := Some now\<rparr>) (tickets_db s)"
      by blast
    from t(1) reachable_scratch.IH have "price t \<in> set valid_prices"
      by (rule map_of_list_all)
    with t(2) reachable_scratch.IH show ?thesis
      by (simp add: list_all_update)
  qed
qed

lemma reachable_prices_nonneg:
  "reachable s \<Longrightarrow> list_all (\<lambda>t. 0 \<le> price t) (map snd (tickets_db s))"
proof -
  assume "reachable s"
  then have "list_all (\<lambda>t. price t \<in> set valid_prices) (map snd (tickets_db s))"
    by (rule reachable_prices_valid)
  then show ?thesis
    by (auto simp: list_all_iff valid_prices_def)
qed

lemma reachable_distinct_keys:
  "reachable s \<Longrightarrow> distinct (map fst (tickets_db s))"
proof (induction rule: reachable.induct)
  case reachable_init
  show ?case by (simp add: initial_state_def)
next
  case (reachable_payment s str_of rq d)
  from process_payment_tickets [of str_of rq d s] reachable_payment.IH show ?case
    by (auto intro: distinct_update)
next
  case (reachable_scratch s tid now)
  from scratch_ticket_tickets [of tid now s] reachable_scratch.IH show ?case
    by (auto intro: distinct_update)
qed

end
